theory Spec2Isabelle
  imports Main "HOL-Library.Word"
begin

unbundle bit_operations_syntax

section \<open>Python values shared by all modules\<close>

text \<open>
  Python integers are unbounded and are modelled as \<^typ>\<open>int\<close>: \<open>%\<close> is \<open>mod\<close>
  (the result has the sign of the divisor in both languages) and \<open>>> n\<close> is
  \<open>drop_bit n\<close> (floor division by \<open>2 ^ n\<close> in both). Exceptions are values of the
  type \<open>py_error\<close>; only the exception class is kept, not its message.
\<close>

datatype py_error = ValueError | KeyError | ZeroDivisionError | IndexError

section \<open>Outcome derivation\<close>

subsection \<open>\<open>demo/game.py\<close>: \<open>calculate_outcome\<close>\<close>

text \<open>
  \<^verbatim>\<open>range_size = max_val - min_val + 1\<close>, then
  \<^verbatim>\<open>outcome = (drand_value % range_size) + min_val\<close>. Python raises
  \<open>ZeroDivisionError\<close> for a zero modulus; there is no other check in the function.
\<close>

definition py_mod :: "int \<Rightarrow> int \<Rightarrow> py_error + int" where
  "py_mod a b = (if b = 0 then Inl ZeroDivisionError else Inr (a mod b))"

definition calculate_outcome :: "int \<Rightarrow> int \<Rightarrow> int \<Rightarrow> py_error + int" where
  "calculate_outcome drand_value min_val max_val =
     (let range_size = max_val - min_val + 1 in
      case py_mod drand_value range_size of
        Inl e \<Rightarrow> Inl e
      | Inr r \<Rightarrow> Inr (r + min_val))"

subsection \<open>\<open>demo/verify.py\<close>: \<open>DrandVerifier.calculate_outcome\<close>\<close>

text \<open>The method has the same body and does not read \<open>self\<close>.\<close>

definition DrandVerifier_calculate_outcome :: "int \<Rightarrow> int \<Rightarrow> int \<Rightarrow> py_error + int" where
  "DrandVerifier_calculate_outcome drand_value min_val max_val =
     (let range_size = max_val - min_val + 1 in
      case py_mod drand_value range_size of
        Inl e \<Rightarrow> Inl e
      | Inr r \<Rightarrow> Inr (r + min_val))"

subsection \<open>\<open>legacy/server/app/game/__init__.py\<close>: \<open>DiceGame\<close>\<close>

text \<open>
  \<open>str(n)\<close> for an integer, as the f-strings of the source format it: decimal digits,
  with a leading minus sign for a negative number.
\<close>

function str_nat :: "nat \<Rightarrow> string" where
  "str_nat n =
     (if n < 10 then [''0123456789'' ! n]
      else str_nat (n div 10) @ [''0123456789'' ! (n mod 10)])"
  by pat_completeness auto
termination
  by (relation "measure (\<lambda>n. n)") auto

definition py_str :: "int \<Rightarrow> string" where
  "py_str i = (if i < 0 then CHR ''-'' # str_nat (nat (- i)) else str_nat (nat i))"

text \<open>The dictionary returned by \<open>derive_rolls_from_drand\<close>; \<open>winner\<close> is 1 or 2.\<close>

record rolls =
  player1_roll :: int
  player2_roll :: int
  winner :: int
  message :: string

definition derive_rolls_from_drand :: "int \<Rightarrow> rolls" where
  "derive_rolls_from_drand drand_value =
     (let p1 = (drand_value mod 6) + 1;
          p2 = (drop_bit 8 drand_value mod 6) + 1
      in if p1 > p2 then
           \<lparr>player1_roll = p1, player2_roll = p2, winner = 1,
            message = ''Player 1 wins with '' @ py_str p1 @ '' vs '' @ py_str p2\<rparr>
         else if p2 > p1 then
           \<lparr>player1_roll = p1, player2_roll = p2, winner = 2,
            message = ''Player 2 wins with '' @ py_str p2 @ '' vs '' @ py_str p1\<rparr>
         else
           \<lparr>player1_roll = p1, player2_roll = p2, winner = 1,
            message = ''Tie! Both rolled '' @ py_str p1 @ ''. Player 1 wins on tie.''\<rparr>)"

definition validate_rolls :: "int \<Rightarrow> int \<Rightarrow> bool" where
  "validate_rolls player1 player2 \<longleftrightarrow>
     1 \<le> player1 \<and> player1 \<le> 6 \<and> 1 \<le> player2 \<and> player2 \<le> 6"

section \<open>Python's \<open>int(s, 16)\<close>\<close>

text \<open>
  A Python string is modelled as a \<^typ>\<open>string\<close> whose characters are the code points
  of the Python string. Only strings whose code points are all below 256 can be written
  this way, and every statement about \<open>int(s, 16)\<close> below is about these strings only:
  on other strings the interpreter also takes Unicode decimal digits and Unicode white
  space, which are not modelled. \<open>int(s, 16)\<close> is the
  interpreter's own parser, modelled here step by step: it skips leading white space,
  takes one optional sign, an optional \<open>0x\<close>/\<open>0X\<close> prefix (after which one underscore
  may follow), then hex digits in which single underscores may separate digits, then
  trailing white space up to the end of the string. Anything else raises \<open>ValueError\<close>.
  White space is the six ASCII white-space characters and, among the code points below
  256, U+0085 and U+00A0 (which the interpreter maps to a space before parsing).
\<close>

definition Py_ISSPACE :: "char \<Rightarrow> bool" where
  "Py_ISSPACE c \<longleftrightarrow> c \<in> set [CHR 0x09, CHR 0x0A, CHR 0x0B, CHR 0x0C, CHR 0x0D, CHR 0x20]"

definition int_space :: "char \<Rightarrow> bool" where
  "int_space c \<longleftrightarrow> Py_ISSPACE c \<or> c = CHR 0x85 \<or> c = CHR 0xA0"

text \<open>The value of a hex digit, \<open>None\<close> for any other character.\<close>

definition digit_value :: "char \<Rightarrow> nat option" where
  "digit_value c =
     (let n = (of_char c :: nat) in
      if 48 \<le> n \<and> n \<le> 57 then Some (n - 48)
      else if 97 \<le> n \<and> n \<le> 102 then Some (n - 87)
      else if 65 \<le> n \<and> n \<le> 70 then Some (n - 55)
      else None)"

text \<open>
  The digit loop: \<open>prev\<close> says that the previous character was an underscore, \<open>acc\<close> is
  the value read so far and \<open>n\<close> the number of characters consumed. It stops at the
  first character that is neither a hex digit nor an underscore and returns the rest.
  A double or a trailing underscore is an error.
\<close>

fun int16_digits :: "bool \<Rightarrow> int \<Rightarrow> nat \<Rightarrow> string \<Rightarrow> py_error + (int \<times> nat \<times> string)" where
  "int16_digits prev acc n [] = (if prev then Inl ValueError else Inr (acc, n, []))"
| "int16_digits prev acc n (c # cs) =
     (if c = CHR ''_'' then
        (if prev then Inl ValueError else int16_digits True acc (Suc n) cs)
      else case digit_value c of
        Some d \<Rightarrow> int16_digits False (acc * 16 + int d) (Suc n) cs
      | None \<Rightarrow> (if prev then Inl ValueError else Inr (acc, n, c # cs)))"

definition int16_sign :: "string \<Rightarrow> bool \<times> string" where
  "int16_sign s =
     (case s of
        [] \<Rightarrow> (False, s)
      | c # r \<Rightarrow> if c = CHR ''+'' then (False, r)
                 else if c = CHR ''-'' then (True, r)
                 else (False, s))"

definition int16_prefix :: "string \<Rightarrow> string" where
  "int16_prefix s =
     (case s of
        c0 # c1 # r \<Rightarrow>
          if c0 = CHR ''0'' \<and> (c1 = CHR ''x'' \<or> c1 = CHR ''X'') then
            (case r of
               [] \<Rightarrow> r
             | u # r' \<Rightarrow> if u = CHR ''_'' then r' else r)
          else s
      | _ \<Rightarrow> s)"

definition py_int16 :: "string \<Rightarrow> py_error + int" where
  "py_int16 s =
     (let (neg, s2) = int16_sign (dropWhile int_space s);
          s3 = int16_prefix s2
      in if s3 \<noteq> [] \<and> hd s3 = CHR ''_'' then Inl ValueError
         else case int16_digits False 0 0 s3 of
           Inl e \<Rightarrow> Inl e
         | Inr (v, n, rest) \<Rightarrow>
             if n = 0 then Inl ValueError
             else if dropWhile int_space rest \<noteq> [] then Inl ValueError
             else Inr (if neg then - v else v))"

section \<open>The randomness verifier\<close>

subsection \<open>\<open>demo/verify.py\<close>: the module-level table and \<open>DrandVerifier\<close>\<close>

text \<open>
  The dictionary stored for a round. The keys \<open>signature\<close> and \<open>source\<close> are present in
  some entries only.
\<close>

record round_data =
  round_number :: int
  randomness :: string
  signature :: "string option"
  timestamp :: int
  verified :: bool
  source :: "string option"

text \<open>
  Dictionaries are mutable objects and the source shares one of them between the module
  and every verifier, so they live in a store indexed by references. The module-level
  name \<open>KNOWN_DRAND_ROUNDS\<close> is bound to one dictionary object for the life of the
  module (the source never rebinds it).
\<close>

type_synonym ref = nat
type_synonym rounds = "int \<rightharpoonup> round_data"
type_synonym store = "ref \<Rightarrow> rounds"

definition KNOWN_DRAND_ROUNDS :: ref where
  "KNOWN_DRAND_ROUNDS = 0"

definition known_rounds_literal :: rounds where
  "known_rounds_literal =
     [17598 \<mapsto> \<lparr>round_number = 17598,
                 randomness = ''0x2e0a3bbff600011a0ae21c92e8d4c99dda94da06284dfe90032bae3f7ebc6339'',
                 signature = Some ''a9cd1e7e6d6cb8822b4be736b8bc1b682ba93c321073ed8c324a87e2091c1d97dd4a48681d9e8e6824fa15c0f8cc471e0515f477aaed546cef4119c7346220399f91c0dedb0208ad5e679b0627630b34d6aa8bc7c400973a2738d40594f4aa60'',
                 timestamp = 1708643700, verified = True,
                 source = Some ''https://drand.love/''\<rparr>,
      13629 \<mapsto> \<lparr>round_number = 13629,
                 randomness = ''0x8d0a7b3f9c2e1a4f7d5b9c3e8a1f4b7d9c2e5f8a1b4c7d9e0f3a5c7e9f1b'',
                 signature = Some ''0x...'',
                 timestamp = 1708643700, verified = True, source = None\<rparr>,
      13630 \<mapsto> \<lparr>round_number = 13630,
                 randomness = ''0x2f4e8c1b9a3d7f5e2c6a9b1d4e7f0a3b8c1d4e7f0a3b8c1d4e7f0a3b8c1d'',
                 signature = Some ''0x...'',
                 timestamp = 1708643703, verified = True, source = None\<rparr>]"

text \<open>The store when the module has just been loaded.\<close>

definition module_loaded :: store where
  "module_loaded = (\<lambda>_. Map.empty)(KNOWN_DRAND_ROUNDS := known_rounds_literal)"

text \<open>An instance holds a reference to its dictionary of rounds.\<close>

record DrandVerifier =
  known_rounds :: ref

text \<open>
  \<open>__init__\<close>: \<^verbatim>\<open>self.known_rounds = KNOWN_DRAND_ROUNDS\<close>. No dictionary is created
  and the store is left as it is.
\<close>

definition DrandVerifier_init :: "store \<Rightarrow> DrandVerifier \<times> store" where
  "DrandVerifier_init st = (\<lparr>known_rounds = KNOWN_DRAND_ROUNDS\<rparr>, st)"

text \<open>
  \<open>add_round\<close>: \<open>now\<close> is what \<^verbatim>\<open>int(datetime.now().timestamp())\<close> would return,
  used when no timestamp is passed.
\<close>

definition add_round ::
  "int \<Rightarrow> DrandVerifier \<Rightarrow> int \<Rightarrow> string \<Rightarrow> int option \<Rightarrow> store \<Rightarrow> store" where
  "add_round now self round_num rnd ts st =
     (let t = (case ts of None \<Rightarrow> now | Some t' \<Rightarrow> t')
      in st(known_rounds self :=
              (st (known_rounds self))(round_num \<mapsto>
                 \<lparr>round_number = round_num, randomness = rnd, signature = None,
                  timestamp = t, verified = True, source = None\<rparr>)))"

definition get_round :: "DrandVerifier \<Rightarrow> int \<Rightarrow> store \<Rightarrow> round_data option" where
  "get_round self round_num st =
     (if round_num \<in> dom (st (known_rounds self))
      then st (known_rounds self) round_num
      else None)"

definition DrandVerifier_randomness_to_int :: "string \<Rightarrow> py_error + int" where
  "DrandVerifier_randomness_to_int randomness_hex = py_int16 randomness_hex"

text \<open>
  The dictionary returned by \<open>verify_game\<close>. A key that a branch does not set is
  \<open>None\<close>; \<open>actual_outcome\<close> is set to Python's \<open>None\<close> in the not-found branch.
\<close>

record verification =
  valid :: bool
  error :: "string option"
  res_round :: "int option"
  res_randomness :: "string option"
  claimed_outcome :: int
  actual_outcome :: "int option"
  res_timestamp :: "int option"
  explanation :: "string option"

definition verify_game ::
  "DrandVerifier \<Rightarrow> int \<Rightarrow> int \<Rightarrow> int \<Rightarrow> int \<Rightarrow> store \<Rightarrow> py_error + verification" where
  "verify_game self round_num claimed min_val max_val st =
     (case get_round self round_num st of
        None \<Rightarrow>
          Inr \<lparr>valid = False,
               error = Some (''Round '' @ py_str round_num @ '' not found in local database''),
               res_round = None, res_randomness = None,
               claimed_outcome = claimed, actual_outcome = None,
               res_timestamp = None, explanation = None\<rparr>
      | Some round_data \<Rightarrow>
          (let drand_hex = randomness round_data in
           case DrandVerifier_randomness_to_int drand_hex of
             Inl e \<Rightarrow> Inl e
           | Inr drand_int \<Rightarrow>
               (case DrandVerifier_calculate_outcome drand_int min_val max_val of
                  Inl e \<Rightarrow> Inl e
                | Inr actual \<Rightarrow>
                    Inr \<lparr>valid = (actual = claimed),
                         error = None,
                         res_round = Some round_num, res_randomness = Some drand_hex,
                         claimed_outcome = claimed, actual_outcome = Some actual,
                         res_timestamp = Some (timestamp round_data),
                         explanation = Some (''('' @ py_str drand_int @ '' % ''
                           @ py_str (max_val - min_val + 1) @ '') + '' @ py_str min_val
                           @ '' = '' @ py_str actual)\<rparr>)))"

subsection \<open>\<open>legacy/server/app/randomness/__init__.py\<close>: \<open>DrandClientSync.randomness_to_int\<close>\<close>

definition DrandClientSync_randomness_to_int :: "string \<Rightarrow> py_error + int" where
  "DrandClientSync_randomness_to_int randomness_hex =
     (if take 2 randomness_hex = ''0x''
      then py_int16 (drop 2 randomness_hex)
      else py_int16 randomness_hex)"

section \<open>The commit-reveal seed store\<close>

subsection \<open>\<open>bytes.hex()\<close> and \<open>bytes.fromhex()\<close>\<close>

type_synonym byte = "8 word"

definition hexdigit :: "nat \<Rightarrow> char" where
  "hexdigit n = ''0123456789abcdef'' ! n"

text \<open>\<open>bytes.hex()\<close>: two lower-case hex digits per byte, high nibble first.\<close>

definition bytes_hex :: "byte list \<Rightarrow> string" where
  "bytes_hex bs =
     concat (map (\<lambda>b. [hexdigit (unat (drop_bit 4 b)), hexdigit (unat (b AND 15))]) bs)"

text \<open>
  \<open>bytes.fromhex(s)\<close>: ASCII white space is skipped before each byte, then two hex
  digits make one byte. A character that is not a hex digit, or a digit with no
  partner, raises \<open>ValueError\<close>.
\<close>

fun bytes_fromhex :: "string \<Rightarrow> py_error + byte list" where
  "bytes_fromhex [] = Inr []"
| "bytes_fromhex [c] = (if Py_ISSPACE c then Inr [] else Inl ValueError)"
| "bytes_fromhex (c # d # cs) =
     (if Py_ISSPACE c then bytes_fromhex (d # cs)
      else case digit_value c of
        None \<Rightarrow> Inl ValueError
      | Some hi \<Rightarrow>
          (case digit_value d of
             None \<Rightarrow> Inl ValueError
           | Some lo \<Rightarrow>
               (case bytes_fromhex cs of
                  Inl e \<Rightarrow> Inl e
                | Inr bs \<Rightarrow> Inr (word_of_nat (hi * 16 + lo) # bs))))"

subsection \<open>\<open>protocol/seed.py\<close>: \<open>SeedManager\<close>\<close>

text \<open>
  The manager's only field is the dictionary \<open>_seeds\<close>, from a seat to the pair of the
  raw seed and the commitment. Two things come from outside the repository and are
  parameters of the model: \<open>sha256\<close>, standing for
  \<^verbatim>\<open>hashlib.sha256(b).hexdigest()\<close>, and \<open>token\<close>, the 32 bytes that
  \<^verbatim>\<open>secrets.token_bytes(32)\<close> returns when \<open>create_seed\<close> calls it.
\<close>

record SeedManager =
  seeds :: "string \<rightharpoonup> (byte list \<times> string)"

definition SeedManager_init :: SeedManager where
  "SeedManager_init = \<lparr>seeds = Map.empty\<rparr>"

text \<open>
  \<open>create_seed\<close> returns the commitment, or raises \<open>ValueError\<close>, together with the
  manager after the call.
\<close>

definition create_seed ::
  "(byte list \<Rightarrow> string) \<Rightarrow> byte list \<Rightarrow> SeedManager \<Rightarrow> string
     \<Rightarrow> (py_error + string) \<times> SeedManager" where
  "create_seed sha256 token self seat =
     (if seat \<in> dom (seeds self) then (Inl ValueError, self)
      else
        (let raw = token;
             commitment = sha256 raw
         in (Inr commitment, self\<lparr>seeds := (seeds self)(seat \<mapsto> (raw, commitment))\<rparr>)))"

definition reveal_seed :: "SeedManager \<Rightarrow> string \<Rightarrow> py_error + string" where
  "reveal_seed self seat =
     (if seat \<notin> dom (seeds self) then Inl KeyError
      else case seeds self seat of
        None \<Rightarrow> Inl KeyError
      | Some (raw, _) \<Rightarrow> Inr (bytes_hex raw))"

definition verify_commitment ::
  "(byte list \<Rightarrow> string) \<Rightarrow> SeedManager \<Rightarrow> string \<Rightarrow> string \<Rightarrow> py_error + bool" where
  "verify_commitment sha256 self seat seed_hex =
     (case seeds self seat of
        None \<Rightarrow> Inr False
      | Some (_, commitment) \<Rightarrow>
          (case bytes_fromhex seed_hex of
             Inl e \<Rightarrow> Inl e
           | Inr bs \<Rightarrow> Inr (sha256 bs = commitment)))"

section \<open>The matchmaking queue\<close>

subsection \<open>\<open>legacy/server/app/matching/__init__.py\<close>: \<open>MatchmakingQueue\<close>\<close>

text \<open>
  The types of \<open>amount\<close> (a float) and \<open>joined_at\<close> (a datetime) play no part in the
  queue's logic and are type parameters.
\<close>

record ('amount, 'time) PendingPlayer =
  player_address :: string
  bet_id :: int
  amount :: 'amount
  game_type :: string
  joined_at :: 'time

record ('amount, 'time) MatchmakingQueue =
  queue :: "('amount, 'time) PendingPlayer list"

definition MatchmakingQueue_init :: "('amount, 'time) MatchmakingQueue" where
  "MatchmakingQueue_init = \<lparr>queue = []\<rparr>"

text \<open>\<open>add_player\<close>: \<open>now\<close> is what \<^verbatim>\<open>datetime.now()\<close> returns.\<close>

definition add_player ::
  "'time \<Rightarrow> ('amount, 'time) MatchmakingQueue \<Rightarrow> string \<Rightarrow> int \<Rightarrow> 'amount \<Rightarrow> string
     \<Rightarrow> ('amount, 'time) MatchmakingQueue" where
  "add_player now self addr bet amt gt =
     (let player = \<lparr>player_address = addr, bet_id = bet, amount = amt,
                     game_type = gt, joined_at = now\<rparr>
      in self\<lparr>queue := queue self @ [player]\<rparr>)"

text \<open>\<open>list.pop(i)\<close> for \<open>i \<ge> 0\<close>: raises \<open>IndexError\<close> when \<open>i\<close> is out of range.\<close>

definition list_pop :: "'a list \<Rightarrow> nat \<Rightarrow> py_error + ('a \<times> 'a list)" where
  "list_pop xs i =
     (if i < length xs then Inr (xs ! i, take i xs @ drop (Suc i) xs)
      else Inl IndexError)"

text \<open>
  The loop of \<open>find_match\<close>: \<open>i\<close> and the list \<open>rest\<close> are the state of
  \<^verbatim>\<open>enumerate(self.queue)\<close>, \<open>q\<close> is the whole queue. The loop returns as soon as
  it has popped an element, so the list is never changed while it is iterated.
\<close>

fun find_match_loop ::
  "nat \<Rightarrow> ('amount, 'time) PendingPlayer list \<Rightarrow> ('amount, 'time) PendingPlayer list
     \<Rightarrow> string
     \<Rightarrow> py_error + (('amount, 'time) PendingPlayer option \<times> ('amount, 'time) PendingPlayer list)"
  where
  "find_match_loop i [] q gt = Inr (None, q)"
| "find_match_loop i (player # rest) q gt =
     (if game_type player = gt then
        (case list_pop q i of
           Inl e \<Rightarrow> Inl e
         | Inr (_, q') \<Rightarrow> Inr (Some player, q'))
      else find_match_loop (Suc i) rest q gt)"

definition find_match ::
  "('amount, 'time) MatchmakingQueue \<Rightarrow> string
     \<Rightarrow> py_error + (('amount, 'time) PendingPlayer option \<times> ('amount, 'time) MatchmakingQueue)"
  where
  "find_match self gt =
     (case find_match_loop 0 (queue self) (queue self) gt of
        Inl e \<Rightarrow> Inl e
      | Inr (r, q') \<Rightarrow> Inr (r, self\<lparr>queue := q'\<rparr>))"

definition remove_player ::
  "('amount, 'time) MatchmakingQueue \<Rightarrow> string \<Rightarrow> ('amount, 'time) MatchmakingQueue" where
  "remove_player self addr =
     self\<lparr>queue := filter (\<lambda>p. player_address p \<noteq> addr) (queue self)\<rparr>"

definition get_queue_size :: "('amount, 'time) MatchmakingQueue \<Rightarrow> nat" where
  "get_queue_size self = length (queue self)"

section \<open>Hex strings, as the specification words them\<close>

text \<open>
  These definitions follow the words of the specification and of Python's own
  documentation; they are not taken from the code, and are what the randomness
  conversions are compared with. A hex digit is a character with a digit value below 16.
  The value of a string of hex digits is positional: \<open>hex_value_lsd\<close> takes the digits
  least significant first.
\<close>

definition is_hex :: "char \<Rightarrow> bool" where
  "is_hex c \<longleftrightarrow> digit_value c \<noteq> None"

definition hexval :: "char \<Rightarrow> int" where
  "hexval c = (case digit_value c of None \<Rightarrow> 0 | Some d \<Rightarrow> int d)"

fun hex_value_lsd :: "string \<Rightarrow> int" where
  "hex_value_lsd [] = 0"
| "hex_value_lsd (c # cs) = hexval c + 16 * hex_value_lsd cs"

definition hex_value :: "string \<Rightarrow> int" where
  "hex_value s = hex_value_lsd (rev s)"

text \<open>
  A valid hex input in the sense of the specification: hex digits, at least one, with or
  without the prefix \<open>0x\<close>.
\<close>

definition strip_0x :: "string \<Rightarrow> string" where
  "strip_0x s = (if take 2 s = ''0x'' then drop 2 s else s)"

definition valid_hex :: "string \<Rightarrow> bool" where
  "valid_hex s \<longleftrightarrow> strip_0x s \<noteq> [] \<and> list_all is_hex (strip_0x s)"

text \<open>
  What Python documents \<open>int(s, 16)\<close> to accept: white space around the literal, one
  optional sign, an optional prefix \<open>0x\<close> or \<open>0X\<close>, and groups of hex digits separated
  by single underscores (one underscore may also follow the prefix). \<open>split_us\<close> splits
  at the underscores, as \<^verbatim>\<open>s.split("_")\<close> does.
\<close>

definition strip_space :: "string \<Rightarrow> string" where
  "strip_space s = rev (dropWhile int_space (rev (dropWhile int_space s)))"

definition unsign :: "string \<Rightarrow> string" where
  "unsign s = (if s \<noteq> [] \<and> (hd s = CHR ''+'' \<or> hd s = CHR ''-'') then tl s else s)"

definition unprefix :: "string \<Rightarrow> string" where
  "unprefix s =
     (if take 2 s = ''0x'' \<or> take 2 s = ''0X''
      then (if take 1 (drop 2 s) = ''_'' then drop 3 s else drop 2 s)
      else s)"

fun split_us :: "string \<Rightarrow> string list" where
  "split_us [] = [[]]"
| "split_us (c # cs) =
     (if c = CHR ''_'' then [] # split_us cs
      else (c # hd (split_us cs)) # tl (split_us cs))"

definition int16_literal :: "string \<Rightarrow> bool" where
  "int16_literal s \<longleftrightarrow>
     list_all (\<lambda>g. g \<noteq> [] \<and> list_all is_hex g)
       (split_us (unprefix (unsign (strip_space s))))"

definition int16_value :: "string \<Rightarrow> int" where
  "int16_value s =
     (let t = strip_space s;
          v = hex_value (filter (\<lambda>c. c \<noteq> CHR ''_'') (unprefix (unsign t)))
      in if t \<noteq> [] \<and> hd t = CHR ''-'' then - v else v)"

subsection \<open>Auxiliary functions for the proofs about \<open>int16_digits\<close>\<close>

text \<open>
  \<open>us_ok prev b\<close>: no underscore of \<open>b\<close> follows an underscore or ends \<open>b\<close>, where
  \<open>prev\<close> says that an underscore (or nothing at all) comes just before \<open>b\<close>.
  \<open>hexacc\<close> is the accumulation of the digit loop.
\<close>

definition digit_or_us :: "char \<Rightarrow> bool" where
  "digit_or_us c \<longleftrightarrow> c = CHR ''_'' \<or> digit_value c \<noteq> None"

fun us_ok :: "bool \<Rightarrow> string \<Rightarrow> bool" where
  "us_ok prev [] = (\<not> prev)"
| "us_ok prev (c # cs) = (if c = CHR ''_'' then \<not> prev \<and> us_ok True cs else us_ok False cs)"

fun hexacc :: "int \<Rightarrow> string \<Rightarrow> int" where
  "hexacc acc [] = acc"
| "hexacc acc (c # cs) = hexacc (acc * 16 + hexval c) cs"

section \<open>Theorems about outcome derivation\<close>

lemma calculate_outcome_same:
  "DrandVerifier_calculate_outcome d mn mx = calculate_outcome d mn mx"
  by (simp add: DrandVerifier_calculate_outcome_def calculate_outcome_def)

text \<open>
  C1. For integers \<open>min \<le> max\<close> and a non-negative random value, both copies of
  \<open>calculate_outcome\<close> return \<open>(randomValue mod (max - min + 1)) + min\<close>, and this value
  lies in \<open>[min, max]\<close>. The function is a function of its three arguments alone (the
  source reads and writes no other state), so equal inputs give equal outputs.
\<close>

theorem calculate_outcome_in_range:
  assumes "min_val \<le> max_val" and "0 \<le> drand_value"
  shows "calculate_outcome drand_value min_val max_val
           = Inr ((drand_value mod (max_val - min_val + 1)) + min_val)
       \<and> DrandVerifier_calculate_outcome drand_value min_val max_val
           = Inr ((drand_value mod (max_val - min_val + 1)) + min_val)
       \<and> min_val \<le> (drand_value mod (max_val - min_val + 1)) + min_val
       \<and> (drand_value mod (max_val - min_val + 1)) + min_val \<le> max_val"
proof -
  let ?rs = "max_val - min_val + 1"
  from assms(1) have pos: "0 < ?rs" by simp
  have lo: "0 \<le> drand_value mod ?rs"
    using pos by (rule pos_mod_sign)
  have hi: "drand_value mod ?rs < ?rs"
    using pos by (rule pos_mod_bound)
  have eq: "calculate_outcome drand_value min_val max_val
              = Inr ((drand_value mod ?rs) + min_val)"
    using pos by (simp add: calculate_outcome_def py_mod_def)
  from eq lo hi show ?thesis
    by (simp add: calculate_outcome_same)
qed

theorem calculate_outcome_in_range_witness:
  "(1::int) \<le> 6 \<and> (0::int) \<le> 20
   \<and> calculate_outcome 20 1 6 = Inr 3
   \<and> DrandVerifier_calculate_outcome 20 1 6 = Inr 3"
  using calculate_outcome_in_range [of 1 6 20] by simp

text \<open>
  C2. For a 256-bit non-negative random value, \<open>derive_rolls_from_drand\<close> returns
  \<open>rollA = (v mod 6) + 1\<close> and \<open>rollB = ((v >> 8) mod 6) + 1\<close>, both in \<open>[1, 6]\<close>; the
  winner is player 1 or player 2, and it is player 1 whenever \<open>rollA \<ge> rollB\<close>.
\<close>

theorem derive_rolls_from_drand_correct:
  assumes "0 \<le> v" and "v < 2 ^ 256"
  shows "player1_roll (derive_rolls_from_drand v) = (v mod 6) + 1
       \<and> player2_roll (derive_rolls_from_drand v) = ((v div 2 ^ 8) mod 6) + 1
       \<and> player1_roll (derive_rolls_from_drand v) \<in> {1..6}
       \<and> player2_roll (derive_rolls_from_drand v) \<in> {1..6}
       \<and> winner (derive_rolls_from_drand v) \<in> {1, 2}
       \<and> (player1_roll (derive_rolls_from_drand v) \<ge> player2_roll (derive_rolls_from_drand v)
            \<longrightarrow> winner (derive_rolls_from_drand v) = 1)"
proof -
  have a: "0 \<le> v mod 6" "v mod 6 < 6"
    by simp_all
  have b: "0 \<le> (v div 2 ^ 8) mod 6" "(v div 2 ^ 8) mod 6 < 6"
    by simp_all
  have s: "drop_bit 8 v = v div 2 ^ 8"
    by (simp add: drop_bit_eq_div)
  show ?thesis
    using a b unfolding derive_rolls_from_drand_def Let_def s
    by auto
qed

theorem derive_rolls_from_drand_correct_witness:
  "(0::int) \<le> 1542 \<and> (1542::int) < 2 ^ 256
   \<and> player1_roll (derive_rolls_from_drand 1542) = 1
   \<and> player2_roll (derive_rolls_from_drand 1542) = 1
   \<and> winner (derive_rolls_from_drand 1542) = 1"
  using derive_rolls_from_drand_correct [of 1542] by simp

text \<open>
  C4 as stated fails: with \<open>max < min - 1\<close> the modulus is negative, Python's \<open>%\<close> is
  defined for it, and the function returns a value.
\<close>

theorem calculate_outcome_invalid_range_counterexample:
  "(1::int) < 6 \<and> calculate_outcome 7 6 1 = Inr 5
   \<and> DrandVerifier_calculate_outcome 7 6 1 = Inr 5"
  by (simp add: calculate_outcome_def DrandVerifier_calculate_outcome_def py_mod_def)

text \<open>
  C4, amended. Neither copy of \<open>calculate_outcome\<close> checks its range. For
  \<open>max = min - 1\<close> the call fails, with \<open>ZeroDivisionError\<close>. For \<open>max < min - 1\<close> it
  does not fail: it returns \<open>(randomValue mod (max - min + 1)) + min\<close>, a value in
  \<open>[max + 2, min]\<close>.
\<close>

theorem calculate_outcome_invalid_range:
  assumes "max_val < min_val"
  shows "(max_val = min_val - 1 \<longrightarrow>
            calculate_outcome drand_value min_val max_val = Inl ZeroDivisionError
          \<and> DrandVerifier_calculate_outcome drand_value min_val max_val = Inl ZeroDivisionError)
       \<and> (max_val < min_val - 1 \<longrightarrow>
            calculate_outcome drand_value min_val max_val
              = Inr ((drand_value mod (max_val - min_val + 1)) + min_val)
          \<and> DrandVerifier_calculate_outcome drand_value min_val max_val
              = Inr ((drand_value mod (max_val - min_val + 1)) + min_val)
          \<and> max_val + 2 \<le> (drand_value mod (max_val - min_val + 1)) + min_val
          \<and> (drand_value mod (max_val - min_val + 1)) + min_val \<le> min_val)"
proof (intro conjI impI)
  assume z: "max_val = min_val - 1"
  then show "calculate_outcome drand_value min_val max_val = Inl ZeroDivisionError"
    by (simp add: calculate_outcome_def py_mod_def)
  then show "DrandVerifier_calculate_outcome drand_value min_val max_val = Inl ZeroDivisionError"
    by (simp add: calculate_outcome_same)
next
  assume n: "max_val < min_val - 1"
  let ?rs = "max_val - min_val + 1"
  from n have neg: "?rs < 0" by simp
  have hi: "drand_value mod ?rs \<le> 0"
    using neg by (rule neg_mod_sign)
  have lo: "?rs < drand_value mod ?rs"
    using neg by (rule neg_mod_bound)
  from neg show eq: "calculate_outcome drand_value min_val max_val
      = Inr ((drand_value mod ?rs) + min_val)"
    by (simp add: calculate_outcome_def py_mod_def)
  then show "DrandVerifier_calculate_outcome drand_value min_val max_val
      = Inr ((drand_value mod ?rs) + min_val)"
    by (simp add: calculate_outcome_same)
  from lo show "max_val + 2 \<le> (drand_value mod ?rs) + min_val"
    by simp
  from hi show "(drand_value mod ?rs) + min_val \<le> min_val"
    by simp
qed

theorem calculate_outcome_invalid_range_witness:
  "(1::int) < 6 \<and> calculate_outcome 7 6 1 = Inr (7 mod (1 - 6 + 1) + 6)
   \<and> (5::int) < 6 \<and> calculate_outcome 7 6 5 = Inl ZeroDivisionError"
  using calculate_outcome_invalid_range [of 1 6 7] calculate_outcome_invalid_range [of 5 6 7]
  by simp

section \<open>Theorems about the randomness verifier\<close>

lemma r17598:
  "py_int16 ''0x2e0a3bbff600011a0ae21c92e8d4c99dda94da06284dfe90032bae3f7ebc6339''
     = Inr 20824471883769137298379017559289083320452580838757845444195232194921037062969"
  by code_simp

lemma get_17598:
  "get_round (fst (DrandVerifier_init module_loaded)) 17598 module_loaded
     = Some \<lparr>round_number = 17598,
             randomness = ''0x2e0a3bbff600011a0ae21c92e8d4c99dda94da06284dfe90032bae3f7ebc6339'',
             signature = Some ''a9cd1e7e6d6cb8822b4be736b8bc1b682ba93c321073ed8c324a87e2091c1d97dd4a48681d9e8e6824fa15c0f8cc471e0515f477aaed546cef4119c7346220399f91c0dedb0208ad5e679b0627630b34d6aa8bc7c400973a2738d40594f4aa60'',
             timestamp = 1708643700, verified = True,
             source = Some ''https://drand.love/''\<rparr>"
  by (simp add: get_round_def DrandVerifier_init_def module_loaded_def known_rounds_literal_def)

lemma outcome_17598:
  "DrandVerifier_calculate_outcome
     20824471883769137298379017559289083320452580838757845444195232194921037062969 1 6 = Inr 2"
  by (simp add: DrandVerifier_calculate_outcome_def py_mod_def)

lemma str_small: "py_str 6 = ''6''" "py_str 1 = ''1''" "py_str 2 = ''2''"
  by (simp_all add: py_str_def)

text \<open>
  C3. The stored round 17598 has the randomness
  \<open>0x2e0a3bbff600011a0ae21c92e8d4c99dda94da06284dfe90032bae3f7ebc6339\<close>; with the range
  \<open>[1, 6]\<close> the derived outcome is 2, \<open>verify_game(17598, 2, 1, 6)\<close> returns a result
  with \<open>valid = True\<close>, and \<open>verify_game(17598, 3, 1, 6)\<close> returns a result with
  \<open>valid = False\<close> and \<open>actual_outcome = 2\<close>. The verifier is one constructed on the
  freshly loaded module.
\<close>

theorem round_17598_scenario:
  "DrandVerifier_randomness_to_int
      ''0x2e0a3bbff600011a0ae21c92e8d4c99dda94da06284dfe90032bae3f7ebc6339''
     = Inr 20824471883769137298379017559289083320452580838757845444195232194921037062969
   \<and> calculate_outcome
        20824471883769137298379017559289083320452580838757845444195232194921037062969 1 6 = Inr 2
   \<and> verify_game (fst (DrandVerifier_init module_loaded)) 17598 2 1 6 module_loaded
     = Inr \<lparr>valid = True, error = None, res_round = Some 17598,
            res_randomness =
              Some ''0x2e0a3bbff600011a0ae21c92e8d4c99dda94da06284dfe90032bae3f7ebc6339'',
            claimed_outcome = 2, actual_outcome = Some 2,
            res_timestamp = Some 1708643700,
            explanation = Some (''('' @ py_str 20824471883769137298379017559289083320452580838757845444195232194921037062969 @ '' % 6) + 1 = 2'')\<rparr>
   \<and> verify_game (fst (DrandVerifier_init module_loaded)) 17598 3 1 6 module_loaded
     = Inr \<lparr>valid = False, error = None, res_round = Some 17598,
            res_randomness =
              Some ''0x2e0a3bbff600011a0ae21c92e8d4c99dda94da06284dfe90032bae3f7ebc6339'',
            claimed_outcome = 3, actual_outcome = Some 2,
            res_timestamp = Some 1708643700,
            explanation = Some (''('' @ py_str 20824471883769137298379017559289083320452580838757845444195232194921037062969 @ '' % 6) + 1 = 2'')\<rparr>"
proof (intro conjI)
  show "DrandVerifier_randomness_to_int
      ''0x2e0a3bbff600011a0ae21c92e8d4c99dda94da06284dfe90032bae3f7ebc6339''
     = Inr 20824471883769137298379017559289083320452580838757845444195232194921037062969"
    by (simp only: DrandVerifier_randomness_to_int_def r17598)
  show "calculate_outcome
        20824471883769137298379017559289083320452580838757845444195232194921037062969 1 6 = Inr 2"
    by (simp add: calculate_outcome_def py_mod_def)
  show "verify_game (fst (DrandVerifier_init module_loaded)) 17598 2 1 6 module_loaded
     = Inr \<lparr>valid = True, error = None, res_round = Some 17598,
            res_randomness =
              Some ''0x2e0a3bbff600011a0ae21c92e8d4c99dda94da06284dfe90032bae3f7ebc6339'',
            claimed_outcome = 2, actual_outcome = Some 2,
            res_timestamp = Some 1708643700,
            explanation = Some (''('' @ py_str 20824471883769137298379017559289083320452580838757845444195232194921037062969 @ '' % 6) + 1 = 2'')\<rparr>"
    by (simp add: verify_game_def get_17598 DrandVerifier_randomness_to_int_def r17598
        outcome_17598 str_small)
  show "verify_game (fst (DrandVerifier_init module_loaded)) 17598 3 1 6 module_loaded
     = Inr \<lparr>valid = False, error = None, res_round = Some 17598,
            res_randomness =
              Some ''0x2e0a3bbff600011a0ae21c92e8d4c99dda94da06284dfe90032bae3f7ebc6339'',
            claimed_outcome = 3, actual_outcome = Some 2,
            res_timestamp = Some 1708643700,
            explanation = Some (''('' @ py_str 20824471883769137298379017559289083320452580838757845444195232194921037062969 @ '' % 6) + 1 = 2'')\<rparr>"
    by (simp add: verify_game_def get_17598 DrandVerifier_randomness_to_int_def r17598
        outcome_17598 str_small)
qed

lemma get_round_lookup: "get_round self n st = st (known_rounds self) n"
  by (auto simp: get_round_def domIff)

lemma init_eq: "DrandVerifier_init st = (\<lparr>known_rounds = KNOWN_DRAND_ROUNDS\<rparr>, st)"
  by (simp add: DrandVerifier_init_def)

lemma loaded_dom:
  "dom (module_loaded (known_rounds (fst (DrandVerifier_init module_loaded))))
       = {17598, 13629, 13630}"
  by (simp add: init_eq module_loaded_def known_rounds_literal_def insert_commute)

lemma add_then_get:
  "get_round (fst (DrandVerifier_init st2)) n
        (add_round now (fst (DrandVerifier_init st1)) n rnd ts st)
       = Some \<lparr>round_number = n, randomness = rnd, signature = None,
               timestamp = (case ts of None \<Rightarrow> now | Some t \<Rightarrow> t),
               verified = True, source = None\<rparr>"
  by (simp add: init_eq get_round_lookup add_round_def)

lemma add_then_get_other:
  "m \<noteq> n \<Longrightarrow>
        get_round (fst (DrandVerifier_init st2)) m
          (add_round now (fst (DrandVerifier_init st1)) n rnd ts st)
        = get_round (fst (DrandVerifier_init st2)) m st"
  by (simp add: init_eq get_round_lookup add_round_def)

lemma add_round_dom:
  "dom (add_round now self n rnd ts st (known_rounds self)) = insert n (dom (st (known_rounds self)))"
  by (simp add: add_round_def)

text \<open>
  C10. Constructing a \<open>DrandVerifier\<close> creates no dictionary: the new instance refers to
  the module-level table \<open>KNOWN_DRAND_ROUNDS\<close> and the store is unchanged. On the freshly
  loaded module that table holds the rounds 17598, 13629 and 13630, and \<open>add_round\<close>
  only ever adds a key to it. Hence, for any two instances, whenever constructed, a
  round added with \<open>add_round(n, ...)\<close> through one of them is what \<open>get_round(n)\<close>
  returns through the other; the other rounds are as before.
\<close>

theorem verifiers_share_known_rounds:
  "DrandVerifier_init st = (\<lparr>known_rounds = KNOWN_DRAND_ROUNDS\<rparr>, st)
   \<and> dom (module_loaded (known_rounds (fst (DrandVerifier_init module_loaded))))
       = {17598, 13629, 13630}
   \<and> dom (add_round now (fst (DrandVerifier_init st1)) n rnd ts st KNOWN_DRAND_ROUNDS)
       = insert n (dom (st KNOWN_DRAND_ROUNDS))
   \<and> get_round (fst (DrandVerifier_init st2)) n
        (add_round now (fst (DrandVerifier_init st1)) n rnd ts st)
       = Some \<lparr>round_number = n, randomness = rnd, signature = None,
               timestamp = (case ts of None \<Rightarrow> now | Some t \<Rightarrow> t),
               verified = True, source = None\<rparr>
   \<and> (m \<noteq> n \<longrightarrow>
        get_round (fst (DrandVerifier_init st2)) m
          (add_round now (fst (DrandVerifier_init st1)) n rnd ts st)
        = get_round (fst (DrandVerifier_init st2)) m st)"
proof -
  have "dom (add_round now (fst (DrandVerifier_init st1)) n rnd ts st KNOWN_DRAND_ROUNDS)
       = insert n (dom (st KNOWN_DRAND_ROUNDS))"
    using add_round_dom [of now "fst (DrandVerifier_init st1)" n rnd ts st]
    by (simp add: init_eq)
  then show ?thesis
    using init_eq loaded_dom add_then_get add_then_get_other by blast
qed

theorem verifiers_share_known_rounds_witness:
  "get_round (fst (DrandVerifier_init module_loaded)) 13631
      (add_round 1700000000 (fst (DrandVerifier_init module_loaded)) 13631 ''0x1234'' None
         module_loaded)
     = Some \<lparr>round_number = 13631, randomness = ''0x1234'', signature = None,
             timestamp = 1700000000, verified = True, source = None\<rparr>
   \<and> get_round (fst (DrandVerifier_init module_loaded)) 13629
      (add_round 1700000000 (fst (DrandVerifier_init module_loaded)) 13631 ''0x1234'' None
         module_loaded)
     = get_round (fst (DrandVerifier_init module_loaded)) 13629 module_loaded"
  using verifiers_share_known_rounds [where n = 13631 and m = 13631 and now = 1700000000
        and rnd = "''0x1234''" and ts = None and st = module_loaded
        and ?st1.0 = module_loaded and ?st2.0 = module_loaded]
    verifiers_share_known_rounds [where n = 13631 and m = 13629 and now = 1700000000
        and rnd = "''0x1234''" and ts = None and st = module_loaded
        and ?st1.0 = module_loaded and ?st2.0 = module_loaded]
  by (simp add: init_eq get_round_lookup add_round_def)

section \<open>Theorems about the seed store\<close>

lemma nib16: "n < 16 \<Longrightarrow> n \<in> set [0,1,2,3,4,5,6,7,8,9,10,11,12,13,14,15::nat]"
  by (simp) arith
lemma hexdigit_value: "n < 16 \<Longrightarrow> digit_value (hexdigit n) = Some n"
  by (drule nib16) (auto simp: hexdigit_def digit_value_def)

lemma hexdigit_not_space: "n < 16 \<Longrightarrow> \<not> Py_ISSPACE (hexdigit n)"
  by (drule nib16) (auto simp: hexdigit_def Py_ISSPACE_def)

lemma unat_hi: "unat (drop_bit 4 (b::byte)) = unat b div 16"
  by (simp add: drop_bit_eq_div unat_div_distrib)

lemma unat_lo: "unat ((b::byte) AND 15) = unat b mod 16"
proof -
  have "(15::byte) = mask 4"
    by (simp add: mask_eq_exp_minus_1)
  then have "b AND 15 = take_bit 4 b"
    by (simp add: take_bit_eq_mask)
  then show ?thesis
    by (simp add: take_bit_eq_mod unat_mod_distrib)
qed

lemma hi_lt: "unat (drop_bit 4 (b::byte)) < 16"
proof -
  have "unat b < 2 ^ LENGTH(8)"
    by (rule unsigned_less)
  then show ?thesis
    by (simp add: unat_hi)
qed

lemma lo_lt: "unat ((b::byte) AND 15) < 16"
  by (simp add: unat_lo)

lemma byte_nibbles: "word_of_nat (unat (drop_bit 4 b) * 16 + unat (b AND 15)) = (b :: byte)"
proof -
  have "unat (drop_bit 4 b) * 16 + unat (b AND 15) = unat b"
    by (simp only: unat_hi unat_lo div_mult_mod_eq)
  then show ?thesis
    by simp
qed
   
lemma fromhex_hex: "bytes_fromhex (bytes_hex bs) = Inr bs"
proof (induction bs)
  case Nil
  show ?case by (simp add: bytes_hex_def)
next
  case (Cons b bs)
  have split: "bytes_hex (b # bs)
      = hexdigit (unat (drop_bit 4 b)) # hexdigit (unat (b AND 15)) # bytes_hex bs"
    by (simp add: bytes_hex_def)
  show ?case
    unfolding split
    by (simp add: hexdigit_not_space hexdigit_value hi_lt lo_lt Cons.IH byte_nibbles
        del: of_nat_add of_nat_mult)
qed

lemma fromhex_even_hex:
  "even (length s) \<Longrightarrow> \<forall>c\<in>set s. digit_value c \<noteq> None \<Longrightarrow> \<exists>bs. bytes_fromhex s = Inr bs"
proof (induction s rule: bytes_fromhex.induct)
  case 1
  show ?case by simp
next
  case (2 c)
  then show ?case by simp
next
  case (3 c d cs)
  from "3.prems" obtain hi lo where hi: "digit_value c = Some hi" and lo: "digit_value d = Some lo"
    by auto
  have nsp: "\<not> Py_ISSPACE c"
    using hi by (auto simp: Py_ISSPACE_def digit_value_def)
  from "3.prems" have "even (length cs)" and "\<forall>c\<in>set cs. digit_value c \<noteq> None"
    by simp_all
  with "3.IH"(2) [OF nsp hi lo] obtain bs where "bytes_fromhex cs = Inr bs"
    by blast
  then show ?case
    using nsp hi lo by simp
qed

text \<open>
  C6. Commit-reveal round trip: on a seat that has no commitment, \<open>create_seed\<close>
  succeeds, \<open>reveal_seed\<close> then returns the hex of the seed, and
  \<open>verify_commitment\<close> with that revealed hex returns \<open>True\<close>. This holds for every
  hash function and every seed that the random source may return.
\<close>

theorem commit_reveal_round_trip:
  assumes "seeds self seat = None"
  shows "create_seed sha256 token self seat
           = (Inr (sha256 token), self\<lparr>seeds := (seeds self)(seat \<mapsto> (token, sha256 token))\<rparr>)
       \<and> reveal_seed (snd (create_seed sha256 token self seat)) seat = Inr (bytes_hex token)
       \<and> verify_commitment sha256 (snd (create_seed sha256 token self seat)) seat (bytes_hex token)
           = Inr True"
proof -
  from assms have fresh: "seat \<notin> dom (seeds self)"
    by (simp add: domIff)
  then have c: "create_seed sha256 token self seat
      = (Inr (sha256 token), self\<lparr>seeds := (seeds self)(seat \<mapsto> (token, sha256 token))\<rparr>)"
    by (simp add: create_seed_def Let_def)
  have r: "reveal_seed (self\<lparr>seeds := (seeds self)(seat \<mapsto> (token, sha256 token))\<rparr>) seat
      = Inr (bytes_hex token)"
    by (simp add: reveal_seed_def)
  have v: "verify_commitment sha256 (self\<lparr>seeds := (seeds self)(seat \<mapsto> (token, sha256 token))\<rparr>)
             seat (bytes_hex token) = Inr True"
    by (simp add: verify_commitment_def fromhex_hex)
  from c r v show ?thesis by simp
qed

theorem commit_reveal_round_trip_witness:
  "seeds SeedManager_init ''PlayerA'' = None
   \<and> reveal_seed (snd (create_seed bytes_hex [0xde, 0xad, 0xbe, 0xef] SeedManager_init ''PlayerA''))
        ''PlayerA'' = Inr ''deadbeef''
   \<and> verify_commitment bytes_hex
        (snd (create_seed bytes_hex [0xde, 0xad, 0xbe, 0xef] SeedManager_init ''PlayerA''))
        ''PlayerA'' ''deadbeef'' = Inr True"
proof -
  have h: "seeds SeedManager_init ''PlayerA'' = None"
    by (simp add: SeedManager_init_def)
  have x: "bytes_hex [0xde, 0xad, 0xbe, 0xef] = ''deadbeef''"
    by (simp add: bytes_hex_def hexdigit_def drop_bit_eq_div)
  from commit_reveal_round_trip [OF h, of bytes_hex "[0xde, 0xad, 0xbe, 0xef]"] h x
  show ?thesis by (simp add: create_seed_def Let_def domIff)
qed

text \<open>
  C7 as stated fails: on a known seat, a seed string that is not hex makes
  \<open>bytes.fromhex\<close> raise \<open>ValueError\<close>, and \<open>verify_commitment\<close> does not catch it.
\<close>

theorem verify_commitment_raises_counterexample:
  "verify_commitment bytes_hex
     (snd (create_seed bytes_hex [0xde, 0xad] SeedManager_init ''A'')) ''A'' ''zz''
   = Inl ValueError"
  by (simp add: verify_commitment_def create_seed_def SeedManager_init_def Let_def
      digit_value_def Py_ISSPACE_def)

text \<open>
  C7, amended. \<open>verify_commitment\<close> returns \<open>False\<close> for an unknown seat, whatever the
  seed string. For a known seat and a seed string that \<open>bytes.fromhex\<close> accepts, it
  returns whether the hash of the decoded bytes equals the stored commitment, so
  \<open>False\<close> for a seed that does not hash to it. In particular it returns a boolean for
  every seed string made of an even number of hex digits.
\<close>

theorem verify_commitment_query:
  "(seeds self seat = None \<longrightarrow> verify_commitment sha256 self seat seed_hex = Inr False)
   \<and> (seeds self seat = Some (raw, commitment) \<and> bytes_fromhex seed_hex = Inr bs
        \<longrightarrow> verify_commitment sha256 self seat seed_hex = Inr (sha256 bs = commitment))
   \<and> (even (length seed_hex) \<and> (\<forall>c\<in>set seed_hex. digit_value c \<noteq> None)
        \<longrightarrow> (\<exists>b. verify_commitment sha256 self seat seed_hex = Inr b))"
proof (intro conjI impI)
  assume "seeds self seat = None"
  then show "verify_commitment sha256 self seat seed_hex = Inr False"
    by (simp add: verify_commitment_def)
next
  assume "seeds self seat = Some (raw, commitment) \<and> bytes_fromhex seed_hex = Inr bs"
  then show "verify_commitment sha256 self seat seed_hex = Inr (sha256 bs = commitment)"
    by (simp add: verify_commitment_def)
next
  assume "even (length seed_hex) \<and> (\<forall>c\<in>set seed_hex. digit_value c \<noteq> None)"
  then obtain bs where "bytes_fromhex seed_hex = Inr bs"
    using fromhex_even_hex by blast
  then show "\<exists>b. verify_commitment sha256 self seat seed_hex = Inr b"
    by (cases "seeds self seat") (auto simp: verify_commitment_def)
qed

theorem verify_commitment_query_witness:
  "verify_commitment bytes_hex \<lparr>seeds = [''A'' \<mapsto> ([0xde, 0xad], ''dead'')]\<rparr> ''B'' ''zz''
     = Inr False
   \<and> verify_commitment bytes_hex \<lparr>seeds = [''A'' \<mapsto> ([0xde, 0xad], ''dead'')]\<rparr> ''A'' ''beef''
     = Inr False
   \<and> (\<exists>b. verify_commitment bytes_hex \<lparr>seeds = [''A'' \<mapsto> ([0xde, 0xad], ''dead'')]\<rparr>
              ''A'' ''beef'' = Inr b)"
proof -
  let ?m = "\<lparr>seeds = [''A'' \<mapsto> ([0xde, 0xad :: byte], ''dead'')]\<rparr>"
  have unknown: "seeds ?m ''B'' = None"
    by simp
  have known: "seeds ?m ''A'' = Some ([0xde, 0xad], ''dead'')"
    by simp
  have dec: "bytes_fromhex ''beef'' = Inr [0xbe, 0xef]"
    by (simp add: digit_value_def Py_ISSPACE_def)
  have hexs: "even (length ''beef'') \<and> (\<forall>c\<in>set ''beef''. digit_value c \<noteq> None)"
    by (simp add: digit_value_def)
  have other: "bytes_hex [0xbe, 0xef] \<noteq> ''dead''"
    by (simp add: bytes_hex_def hexdigit_def drop_bit_eq_div)
  from verify_commitment_query [of ?m "''B''" bytes_hex "''zz''"] unknown
  have a: "verify_commitment bytes_hex ?m ''B'' ''zz'' = Inr False"
    by blast
  from verify_commitment_query [of ?m "''A''" bytes_hex "''beef''" "[0xde, 0xad]" "''dead''"
      "[0xbe, 0xef]"] known dec other
  have b: "verify_commitment bytes_hex ?m ''A'' ''beef'' = Inr False"
    by simp
  from verify_commitment_query [of ?m "''A''" bytes_hex "''beef''"] hexs
  have c: "\<exists>b. verify_commitment bytes_hex ?m ''A'' ''beef'' = Inr b"
    by blast
  from a b c show ?thesis
    by blast
qed

text \<open>
  C8. On a seat that already has a commitment, \<open>create_seed\<close> fails with \<open>ValueError\<close>
  (the source's exception for a duplicate seat) and the manager after the failed call
  is the manager before it.
\<close>

theorem create_seed_duplicate:
  assumes "seeds self seat = Some entry"
  shows "create_seed sha256 token self seat = (Inl ValueError, self)
       \<and> snd (create_seed sha256 token self seat) = self"
  using assms by (simp add: create_seed_def domIff)

theorem create_seed_duplicate_witness:
  "seeds (snd (create_seed bytes_hex [1, 2] SeedManager_init ''A'')) ''A'' = Some ([1, 2], ''0102'')
   \<and> create_seed bytes_hex [3, 4] (snd (create_seed bytes_hex [1, 2] SeedManager_init ''A'')) ''A''
       = (Inl ValueError, snd (create_seed bytes_hex [1, 2] SeedManager_init ''A''))"
proof -
  have h: "seeds (snd (create_seed bytes_hex [1, 2] SeedManager_init ''A'')) ''A''
             = Some ([1, 2], ''0102'')"
    by (simp add: create_seed_def SeedManager_init_def Let_def bytes_hex_def hexdigit_def
        drop_bit_eq_div)
  from create_seed_duplicate [OF h, of bytes_hex "[3, 4]"] h
  show ?thesis by simp
qed

section \<open>Theorems about the matchmaking queue\<close>

lemma find_match_loop_skip:
  assumes "\<forall>x\<in>set before. game_type x \<noteq> gt"
  shows "find_match_loop (length pre) (before @ rest) (pre @ before @ rest) gt
       = find_match_loop (length pre + length before) rest (pre @ before @ rest) gt"
  using assms
proof (induction before arbitrary: pre)
  case Nil
  show ?case by simp
next
  case (Cons x before)
  from Cons.prems have x: "game_type x \<noteq> gt" and rest: "\<forall>y\<in>set before. game_type y \<noteq> gt"
    by simp_all
  have "find_match_loop (length pre) ((x # before) @ rest) (pre @ (x # before) @ rest) gt
      = find_match_loop (length (pre @ [x])) (before @ rest) ((pre @ [x]) @ before @ rest) gt"
    using x by simp
  also have "\<dots> = find_match_loop (length (pre @ [x]) + length before) rest
                     ((pre @ [x]) @ before @ rest) gt"
    using rest by (rule Cons.IH)
  finally show ?case by simp
qed

lemma list_pop_middle: "list_pop (before @ p # after) (length before) = Inr (p, before @ after)"
  by (simp add: list_pop_def)

lemma find_match_loop_hit:
  assumes "\<forall>x\<in>set before. game_type x \<noteq> gt" and "game_type p = gt"
  shows "find_match_loop 0 (before @ p # after) (before @ p # after) gt
       = Inr (Some p, before @ after)"
proof -
  have "find_match_loop 0 (before @ p # after) (before @ p # after) gt
      = find_match_loop (length before) (p # after) (before @ p # after) gt"
    using find_match_loop_skip [OF assms(1), of "[]" "p # after"] by simp
  also have "\<dots> = Inr (Some p, before @ after)"
    using assms(2) by (simp add: list_pop_middle)
  finally show ?thesis .
qed

lemma find_match_loop_miss:
  assumes "\<forall>x\<in>set q. game_type x \<noteq> gt"
  shows "find_match_loop 0 q q gt = Inr (None, q)"
  using find_match_loop_skip [OF assms, of "[]" "[]"] by simp

text \<open>
  C9. \<open>add_player\<close> appends to the queue, so the queue lists the pending players in
  the order in which they were enqueued. \<open>find_match\<close> removes and returns the first
  player of the requested game type in that order, whatever the other fields of the
  players are, and leaves the others in place; it returns \<open>None\<close> and leaves the queue
  as it is when no player of that type is waiting. It never raises.
\<close>

theorem find_match_fifo:
  "(queue self = before @ p # after \<and> (\<forall>x\<in>set before. game_type x \<noteq> gt) \<and> game_type p = gt
      \<longrightarrow> find_match self gt = Inr (Some p, self\<lparr>queue := before @ after\<rparr>))
   \<and> ((\<forall>x\<in>set (queue self). game_type x \<noteq> gt)
      \<longrightarrow> find_match self gt = Inr (None, self))
   \<and> queue (add_player now self addr bet amt g)
      = queue self @ [\<lparr>player_address = addr, bet_id = bet, amount = amt,
                       game_type = g, joined_at = now\<rparr>]"
proof (intro conjI impI)
  assume "queue self = before @ p # after \<and> (\<forall>x\<in>set before. game_type x \<noteq> gt)
            \<and> game_type p = gt"
  then show "find_match self gt = Inr (Some p, self\<lparr>queue := before @ after\<rparr>)"
    by (simp add: find_match_def find_match_loop_hit)
next
  assume "\<forall>x\<in>set (queue self). game_type x \<noteq> gt"
  then show "find_match self gt = Inr (None, self)"
    by (simp add: find_match_def find_match_loop_miss)
next
  show "queue (add_player now self addr bet amt g)
      = queue self @ [\<lparr>player_address = addr, bet_id = bet, amount = amt,
                       game_type = g, joined_at = now\<rparr>]"
    by (simp add: add_player_def)
qed

theorem find_match_fifo_witness:
  "find_match
     (add_player (3::nat)
        (add_player 2 (add_player 1 MatchmakingQueue_init ''a'' 1 () ''dice'') ''b'' 2 () ''coin'')
        ''c'' 3 () ''coin'') ''coin''
     = Inr (Some \<lparr>player_address = ''b'', bet_id = 2, amount = (),
                   game_type = ''coin'', joined_at = 2\<rparr>,
            \<lparr>queue = [\<lparr>player_address = ''a'', bet_id = 1, amount = (),
                         game_type = ''dice'', joined_at = 1\<rparr>,
                       \<lparr>player_address = ''c'', bet_id = 3, amount = (),
                         game_type = ''coin'', joined_at = 3\<rparr>]\<rparr>)
   \<and> find_match
        (add_player (1::nat) MatchmakingQueue_init ''a'' 1 () ''dice'') ''coin''
     = Inr (None, add_player 1 MatchmakingQueue_init ''a'' 1 () ''dice'')"
proof -
  let ?a = "\<lparr>player_address = ''a'', bet_id = 1, amount = (),
               game_type = ''dice'', joined_at = 1::nat\<rparr>"
  let ?b = "\<lparr>player_address = ''b'', bet_id = 2, amount = (),
               game_type = ''coin'', joined_at = 2::nat\<rparr>"
  let ?c = "\<lparr>player_address = ''c'', bet_id = 3, amount = (),
               game_type = ''coin'', joined_at = 3::nat\<rparr>"
  let ?q1 = "add_player (1::nat) MatchmakingQueue_init ''a'' 1 () ''dice''"
  let ?q3 = "add_player (3::nat) (add_player 2 ?q1 ''b'' 2 () ''coin'') ''c'' 3 () ''coin''"
  have q3: "queue ?q3 = [?a] @ ?b # [?c] \<and> (\<forall>x\<in>set [?a]. game_type x \<noteq> ''coin'')
      \<and> game_type ?b = ''coin''"
    by (simp add: add_player_def MatchmakingQueue_init_def)
  have q1: "\<forall>x\<in>set (queue ?q1). game_type x \<noteq> ''coin''"
    by (simp add: add_player_def MatchmakingQueue_init_def)
  from find_match_fifo [of ?q3 "[?a]" ?b "[?c]" "''coin''"] q3
  have hit: "find_match ?q3 ''coin'' = Inr (Some ?b, ?q3\<lparr>queue := [?a] @ [?c]\<rparr>)"
    by blast
  from find_match_fifo [of ?q1 _ _ _ "''coin''"] q1
  have miss: "find_match ?q1 ''coin'' = Inr (None, ?q1)"
    by blast
  from hit miss show ?thesis
    by (simp add: add_player_def MatchmakingQueue_init_def)
qed

section \<open>Theorems about the conversion of randomness to an integer\<close>

subsection \<open>The digit loop\<close>

lemma int16_digits_char:
  "int16_digits prev acc n u =
     (if us_ok prev (takeWhile digit_or_us u)
      then Inr (hexacc acc (filter (\<lambda>c. c \<noteq> CHR ''_'') (takeWhile digit_or_us u)),
                n + length (takeWhile digit_or_us u), dropWhile digit_or_us u)
      else Inl ValueError)"
proof (induction u arbitrary: prev acc n)
  case Nil
  show ?case by simp
next
  case (Cons c cs)
  show ?case
  proof (cases "c = CHR ''_''")
    case True
    then have "digit_or_us c"
      by (simp add: digit_or_us_def)
    with True show ?thesis
      by (simp add: Cons.IH)
  next
    case False
    show ?thesis
    proof (cases "digit_value c")
      case None
      with False have "\<not> digit_or_us c"
        by (simp add: digit_or_us_def)
      with False None show ?thesis
        by simp
    next
      case (Some d)
      then have "digit_or_us c"
        by (simp add: digit_or_us_def)
      with False Some show ?thesis
        by (simp add: Cons.IH hexval_def)
    qed
  qed
qed

lemma hex_value_lsd_append:
  "hex_value_lsd (xs @ ys) = hex_value_lsd xs + 16 ^ length xs * hex_value_lsd ys"
  by (induction xs) (simp_all add: algebra_simps)

lemma hex_value_Cons: "hex_value (c # cs) = hexval c * 16 ^ length cs + hex_value cs"
  by (simp add: hex_value_def hex_value_lsd_append)

lemma hexacc_hex_value: "hexacc acc ds = acc * 16 ^ length ds + hex_value ds"
proof (induction ds arbitrary: acc)
  case Nil
  show ?case by (simp add: hex_value_def)
next
  case (Cons c ds)
  show ?case
    by (simp add: Cons.IH hex_value_Cons algebra_simps)
qed

subsection \<open>Underscores and groups\<close>

lemma split_us_not_Nil: "split_us b \<noteq> []"
  by (cases b) simp_all

lemma us_ok_split:
  "(us_ok True b \<longleftrightarrow> list_all (\<lambda>g. g \<noteq> []) (split_us b))
   \<and> (us_ok False b \<longleftrightarrow> list_all (\<lambda>g. g \<noteq> []) (tl (split_us b)))"
proof (induction b)
  case Nil
  show ?case by simp
next
  case (Cons c cs)
  obtain g gs where sp: "split_us cs = g # gs"
    using split_us_not_Nil [of cs] by (cases "split_us cs") auto
  show ?case
    using Cons.IH by (simp add: sp)
qed

lemma split_us_hex:
  "list_all (\<lambda>g. list_all is_hex g) (split_us b) \<longleftrightarrow> list_all digit_or_us b"
proof (induction b)
  case Nil
  show ?case by simp
next
  case (Cons c cs)
  obtain g gs where sp: "split_us cs = g # gs"
    using split_us_not_Nil [of cs] by (cases "split_us cs") auto
  show ?case
    using Cons.IH by (auto simp: sp digit_or_us_def is_hex_def)
qed

lemma literal_body:
  "list_all (\<lambda>g. g \<noteq> [] \<and> list_all is_hex g) (split_us b)
     \<longleftrightarrow> list_all digit_or_us b \<and> us_ok True b"
proof -
  have "list_all (\<lambda>g. g \<noteq> [] \<and> list_all is_hex g) (split_us b)
      \<longleftrightarrow> list_all (\<lambda>g. g \<noteq> []) (split_us b) \<and> list_all (\<lambda>g. list_all is_hex g) (split_us b)"
    by (auto simp: list_all_iff)
  then show ?thesis
    using us_ok_split [of b] split_us_hex [of b] by blast
qed

lemma us_ok_True: "us_ok True b \<longleftrightarrow> b \<noteq> [] \<and> hd b \<noteq> CHR ''_'' \<and> us_ok False b"
  by (cases b) auto

subsection \<open>White space, sign and prefix\<close>

lemma hex_not_special:
  assumes "digit_value c = Some d"
  shows "\<not> int_space c" and "c \<noteq> CHR ''_''" and "c \<noteq> CHR ''+''" and "c \<noteq> CHR ''-''"
    and "c \<noteq> CHR ''x''" and "c \<noteq> CHR ''X''"
  using assms
  by (auto simp: int_space_def Py_ISSPACE_def digit_value_def split: if_splits)

lemma space_not_special:
  assumes "int_space c"
  shows "\<not> digit_or_us c" and "c \<noteq> CHR ''0''" and "c \<noteq> CHR ''x''" and "c \<noteq> CHR ''X''"
    and "c \<noteq> CHR ''_''" and "c \<noteq> CHR ''+''" and "c \<noteq> CHR ''-''"
  using assms
  by (auto simp: int_space_def Py_ISSPACE_def digit_or_us_def digit_value_def)

text \<open>The string after the leading white space is the stripped string and white space.\<close>

lemma strip_space_decomp:
  obtains w where "dropWhile int_space s = strip_space s @ w" and "list_all int_space w"
    and "strip_space s = [] \<or> \<not> int_space (last (strip_space s))"
    and "strip_space s = [] \<or> \<not> int_space (hd (strip_space s))"
proof -
  let ?s1 = "dropWhile int_space s"
  let ?w = "rev (takeWhile int_space (rev ?s1))"
  have "strip_space s @ ?w
      = rev (takeWhile int_space (rev ?s1) @ dropWhile int_space (rev ?s1))"
    by (simp only: strip_space_def rev_append)
  also have "\<dots> = ?s1"
    by (simp only: takeWhile_dropWhile_id rev_rev_ident)
  finally have d: "?s1 = strip_space s @ ?w"
    by (rule sym)
  have w: "list_all int_space ?w"
    by (simp add: list_all_iff) (meson set_takeWhileD)
  have l: "strip_space s = [] \<or> \<not> int_space (last (strip_space s))"
  proof (cases "dropWhile int_space (rev ?s1)")
    case Nil
    then show ?thesis by (simp add: strip_space_def)
  next
    case (Cons x xs)
    then have "\<not> int_space x"
      using hd_dropWhile [of int_space "rev ?s1"] by simp
    with Cons show ?thesis
      by (simp add: strip_space_def)
  qed
  have h: "strip_space s = [] \<or> \<not> int_space (hd (strip_space s))"
  proof (cases "strip_space s")
    case Nil
    then show ?thesis by simp
  next
    case (Cons x xs)
    with d have "?s1 = x # xs @ ?w"
      by simp
    then have "\<not> int_space x"
      using hd_dropWhile [of int_space s] by (metis list.sel(1) list.simps(3))
    with Cons show ?thesis by simp
  qed
  from d w l h show ?thesis
    by (rule that)
qed

lemma int16_prefix_append:
  assumes "list_all int_space w"
  shows "int16_prefix (u @ w) = unprefix u @ w"
proof (cases u)
  case Nil
  show ?thesis
  proof (cases w)
    case Nil
    with \<open>u = []\<close> show ?thesis
      by (simp add: int16_prefix_def unprefix_def)
  next
    case (Cons a w')
    with assms have "a \<noteq> CHR ''0''"
      using space_not_special(2) by auto
    with Cons \<open>u = []\<close> show ?thesis
      by (simp add: int16_prefix_def unprefix_def split: list.splits)
  qed
next
  case u1: (Cons c0 r0)
  show ?thesis
  proof (cases r0)
    case Nil
    show ?thesis
    proof (cases w)
      case Nil
      with u1 \<open>r0 = []\<close> show ?thesis
        by (simp add: int16_prefix_def unprefix_def)
    next
      case (Cons a w')
      with assms have "a \<noteq> CHR ''x''" "a \<noteq> CHR ''X''"
        using space_not_special(3,4) by auto
      with Cons u1 \<open>r0 = []\<close> show ?thesis
        by (simp add: int16_prefix_def unprefix_def)
    qed
  next
    case u2: (Cons c1 r)
    show ?thesis
    proof (cases r)
      case Nil
      show ?thesis
      proof (cases w)
        case Nil
        with u1 u2 \<open>r = []\<close> show ?thesis
          by (simp add: int16_prefix_def unprefix_def)
      next
        case (Cons a w')
        with assms have "a \<noteq> CHR ''_''"
          using space_not_special(5) by auto
        with Cons u1 u2 \<open>r = []\<close> show ?thesis
          by (simp add: int16_prefix_def unprefix_def)
      qed
    next
      case (Cons c2 r')
      with u1 u2 show ?thesis
        by (simp add: int16_prefix_def unprefix_def)
    qed
  qed
qed

lemma int16_sign_append_space:
  assumes "list_all int_space w"
  shows "int16_sign (core @ w) = (core \<noteq> [] \<and> hd core = CHR ''-'', unsign core @ w)"
proof (cases core)
  case Nil
  show ?thesis
  proof (cases w)
    case Nil
    with \<open>core = []\<close> show ?thesis
      by (simp add: int16_sign_def unsign_def)
  next
    case (Cons a w')
    with assms have "a \<noteq> CHR ''+''" "a \<noteq> CHR ''-''"
      using space_not_special(6,7) by auto
    with Cons \<open>core = []\<close> show ?thesis
      by (simp add: int16_sign_def unsign_def)
  qed
next
  case (Cons c r)
  then show ?thesis
    by (auto simp: int16_sign_def unsign_def)
qed

lemma unsign_last: "unsign t = [] \<or> last (unsign t) = last t"
  by (cases t) (auto simp: unsign_def)

lemma drop_last: "drop k t = [] \<or> last (drop k t) = last t"
  by (cases "k < length t") (simp_all add: last_drop)

lemma unprefix_last: "unprefix t = [] \<or> last (unprefix t) = last t"
  unfolding unprefix_def using drop_last [of 2 t] drop_last [of 3 t] by presburger

lemma space_takeWhile:
  assumes "list_all int_space w"
  shows "takeWhile digit_or_us w = []" and "dropWhile digit_or_us w = w"
    and "dropWhile int_space w = []" and "w = [] \<or> hd w \<noteq> CHR ''_''"
proof -
  show "takeWhile digit_or_us w = []" "dropWhile digit_or_us w = w" "w = [] \<or> hd w \<noteq> CHR ''_''"
    using assms space_not_special(1,5) by (cases w; auto)+
  show "dropWhile int_space w = []"
    using assms by (simp add: list_all_iff)
qed

text \<open>
  The last two stages of the parser, on the digits followed by white space only.
\<close>

lemma digits_stage:
  assumes w: "list_all int_space w" and l: "u = [] \<or> \<not> int_space (last u)"
  shows "(if u @ w \<noteq> [] \<and> hd (u @ w) = CHR ''_'' then Inl ValueError
          else case int16_digits False 0 0 (u @ w) of
            Inl e \<Rightarrow> Inl e
          | Inr (v, n, rest) \<Rightarrow>
              if n = 0 then Inl ValueError
              else if dropWhile int_space rest \<noteq> [] then Inl ValueError
              else Inr (if neg then - v else v))
       = (if list_all digit_or_us u \<and> us_ok True u
          then Inr (if neg then - hex_value (filter (\<lambda>c. c \<noteq> CHR ''_'') u)
                    else hex_value (filter (\<lambda>c. c \<noteq> CHR ''_'') u))
          else Inl ValueError)"
proof (cases "list_all digit_or_us u")
  case True
  then have all: "\<And>x. x \<in> set u \<Longrightarrow> digit_or_us x"
    by (simp add: list_all_iff)
  have tw: "takeWhile digit_or_us (u @ w) = u"
    using all by (simp add: takeWhile_append2 space_takeWhile(1) [OF w])
  have dw: "dropWhile digit_or_us (u @ w) = w"
    using all by (simp add: dropWhile_append2 space_takeWhile(2) [OF w])
  have dig: "int16_digits False 0 0 (u @ w)
      = (if us_ok False u
         then Inr (hex_value (filter (\<lambda>c. c \<noteq> CHR ''_'') u), length u, w)
         else Inl ValueError)"
    by (simp add: int16_digits_char tw dw hexacc_hex_value)
  show ?thesis
  proof (cases u)
    case Nil
    have "int16_digits False 0 0 w = Inr (0, 0, w)"
      by (simp add: int16_digits_char space_takeWhile(1,2) [OF w])
    with Nil show ?thesis
      by simp
  next
    case (Cons c cs)
    then have ne: "u \<noteq> []"
      by simp
    then have hd: "hd (u @ w) = hd u" and len: "length u \<noteq> 0" and app: "u @ w \<noteq> []"
      by simp_all
    have ok: "us_ok True u \<longleftrightarrow> hd u \<noteq> CHR ''_'' \<and> us_ok False u"
      using ne by (simp add: us_ok_True [of u])
    show ?thesis
      unfolding dig hd ok
      using True len app w by (simp add: list_all_iff)
  qed
next
  case False
  then obtain x where x: "x \<in> set u" "\<not> digit_or_us x"
    by (auto simp: list_all_iff)
  then have ne: "u \<noteq> []"
    by auto
  have dwu: "dropWhile digit_or_us u \<noteq> []"
    using x by (auto simp: dropWhile_eq_Nil_conv)
  have "last (dropWhile digit_or_us u) = last u"
    using dwu by (metis takeWhile_dropWhile_id last_appendR)
  moreover have "last (dropWhile digit_or_us u) \<in> set (dropWhile digit_or_us u @ w)"
    using dwu by simp
  ultimately have "\<exists>y\<in>set (dropWhile digit_or_us u @ w). \<not> int_space y"
    using l ne by metis
  then have rest: "dropWhile int_space (dropWhile digit_or_us u @ w) \<noteq> []"
    by (simp only: dropWhile_eq_Nil_conv) blast
  have tw: "takeWhile digit_or_us (u @ w) = takeWhile digit_or_us u"
    using x by (rule takeWhile_append1)
  have dw: "dropWhile digit_or_us (u @ w) = dropWhile digit_or_us u @ w"
    using x by (rule dropWhile_append1)
  have dig: "int16_digits False 0 0 (u @ w)
      = (if us_ok False (takeWhile digit_or_us u)
         then Inr (hexacc 0 (filter (\<lambda>c. c \<noteq> CHR ''_'') (takeWhile digit_or_us u)),
                   length (takeWhile digit_or_us u), dropWhile digit_or_us u @ w)
         else Inl ValueError)"
    by (simp add: int16_digits_char tw dw)
  from False rest show ?thesis
    by (simp add: dig)
qed

lemma py_int16_literal:
  "py_int16 s = (if int16_literal s then Inr (int16_value s) else Inl ValueError)"
proof -
  obtain w where d: "dropWhile int_space s = strip_space s @ w" and w: "list_all int_space w"
    and l: "strip_space s = [] \<or> \<not> int_space (last (strip_space s))"
    by (rule strip_space_decomp)
  let ?core = "strip_space s"
  let ?neg = "?core \<noteq> [] \<and> hd ?core = CHR ''-''"
  let ?u = "unprefix (unsign ?core)"
  have lu: "?u = [] \<or> \<not> int_space (last ?u)"
  proof (cases "?u = []")
    case True
    then show ?thesis by simp
  next
    case False
    then have "last ?u = last (unsign ?core)" and "unsign ?core \<noteq> []"
      using unprefix_last [of "unsign ?core"] by (auto simp: unprefix_def)
    then have "last ?u = last ?core" and "?core \<noteq> []"
      using unsign_last [of ?core] by (auto simp: unsign_def)
    with l show ?thesis by simp
  qed
  have "py_int16 s
      = (if ?u @ w \<noteq> [] \<and> hd (?u @ w) = CHR ''_'' then Inl ValueError
          else case int16_digits False 0 0 (?u @ w) of
            Inl e \<Rightarrow> Inl e
          | Inr (v, n, rest) \<Rightarrow>
              if n = 0 then Inl ValueError
              else if dropWhile int_space rest \<noteq> [] then Inl ValueError
              else Inr (if ?neg then - v else v))"
    unfolding py_int16_def d int16_sign_append_space [OF w] Let_def prod.case
      int16_prefix_append [OF w]
    by (rule refl)
  also have "\<dots> = (if list_all digit_or_us ?u \<and> us_ok True ?u
          then Inr (if ?neg then - hex_value (filter (\<lambda>c. c \<noteq> CHR ''_'') ?u)
                    else hex_value (filter (\<lambda>c. c \<noteq> CHR ''_'') ?u))
          else Inl ValueError)"
    using w lu by (rule digits_stage)
  also have "\<dots> = (if int16_literal s then Inr (int16_value s) else Inl ValueError)"
    by (simp add: int16_literal_def int16_value_def literal_body Let_def)
  finally show ?thesis .
qed

subsection \<open>Plain hex strings\<close>

lemma hexval_bounds: "0 \<le> hexval c \<and> hexval c < 16"
  by (auto simp: hexval_def digit_value_def Let_def)

lemma hex_value_lsd_bounds: "0 \<le> hex_value_lsd b \<and> hex_value_lsd b < 16 ^ length b"
proof (induction b)
  case Nil
  show ?case by simp
next
  case (Cons c b)
  from hexval_bounds [of c] Cons.IH show ?case
    by simp
qed

lemma hex_value_bounds: "0 \<le> hex_value b \<and> hex_value b < 16 ^ length b"
  using hex_value_lsd_bounds [of "rev b"] by (simp add: hex_value_def)

lemma strip_space_id:
  assumes "t = [] \<or> (\<not> int_space (hd t) \<and> \<not> int_space (last t))"
  shows "strip_space t = t"
proof (cases t)
  case Nil
  then show ?thesis by (simp add: strip_space_def)
next
  case (Cons c cs)
  with assms have h: "\<not> int_space (hd t)" and l: "\<not> int_space (last t)" and ne: "t \<noteq> []"
    by simp_all
  from h ne have a: "dropWhile int_space t = t"
    by (simp add: dropWhile_eq_self_iff)
  from l ne have b: "dropWhile int_space (rev t) = rev t"
    by (simp add: dropWhile_eq_self_iff hd_rev)
  show ?thesis
    by (simp add: strip_space_def a b)
qed

lemma us_ok_no_underscore: "CHR ''_'' \<notin> set b \<Longrightarrow> us_ok prev b \<longleftrightarrow> b \<noteq> [] \<or> \<not> prev"
  by (induction b arbitrary: prev) auto

lemma is_hex_not_special:
  assumes "is_hex c"
  shows "\<not> int_space c" and "c \<noteq> CHR ''_''" and "c \<noteq> CHR ''+''" and "c \<noteq> CHR ''-''"
    and "c \<noteq> CHR ''x''" and "c \<noteq> CHR ''X''" and "digit_or_us c"
proof -
  from assms obtain d where d: "digit_value c = Some d"
    by (auto simp: is_hex_def)
  from hex_not_special [OF d]
  show "\<not> int_space c" and "c \<noteq> CHR ''_''" and "c \<noteq> CHR ''+''" and "c \<noteq> CHR ''-''"
    and "c \<noteq> CHR ''x''" and "c \<noteq> CHR ''X''"
    by simp_all
  from d show "digit_or_us c"
    by (simp add: digit_or_us_def)
qed

text \<open>A non-empty string of hex digits is a literal, as it is and behind \<open>0x\<close>.\<close>

lemma hex_body_literal:
  assumes ne: "b \<noteq> []" and hex: "list_all is_hex b"
  shows "int16_literal b" and "int16_value b = hex_value b"
    and "int16_literal (''0x'' @ b)" and "int16_value (''0x'' @ b) = hex_value b"
proof -
  from hex have all: "\<And>c. c \<in> set b \<Longrightarrow> is_hex c"
    by (simp add: list_all_iff)
  from ne have hdb: "hd b \<in> set b" and lastb: "last b \<in> set b"
    by simp_all
  have nous: "CHR ''_'' \<notin> set b" and nox: "CHR ''x'' \<notin> set b" "CHR ''X'' \<notin> set b"
    using all is_hex_not_special(2,5,6) by blast+
  have filt: "filter (\<lambda>c. c \<noteq> CHR ''_'') b = b"
    using nous by (simp add: filter_id_conv) metis
  have dig: "list_all digit_or_us b"
    using all is_hex_not_special(7) by (simp add: list_all_iff)
  have ok: "us_ok True b"
    using nous ne by (simp add: us_ok_no_underscore)
  have s1: "strip_space b = b"
    using all [OF hdb] all [OF lastb] is_hex_not_special(1) by (intro strip_space_id) simp
  have u1: "unsign b = b"
    using all [OF hdb] is_hex_not_special(3,4) by (auto simp: unsign_def)
  have p1: "unprefix b = b"
  proof -
    have "take 2 b \<noteq> ''0x''" and "take 2 b \<noteq> ''0X''"
      using nox by (metis in_set_takeD list.set_intros(1,2))+
    then show ?thesis
      by (simp add: unprefix_def)
  qed
  have minus: "hd b \<noteq> CHR ''-''"
    using all [OF hdb] is_hex_not_special(4) by blast
  show "int16_literal b"
    by (simp add: int16_literal_def s1 u1 p1 literal_body dig ok)
  show "int16_value b = hex_value b"
    using minus by (simp add: int16_value_def s1 u1 p1 filt Let_def)
  let ?s = "''0x'' @ b"
  have last0: "last ?s = last b"
    using ne by simp
  have s2: "strip_space ?s = ?s"
  proof (rule strip_space_id)
    have "\<not> int_space (CHR ''0'')"
      by (simp add: int_space_def Py_ISSPACE_def)
    moreover have "\<not> int_space (last ?s)"
      unfolding last0 using all [OF lastb] is_hex_not_special(1) by blast
    ultimately show "?s = [] \<or> (\<not> int_space (hd ?s) \<and> \<not> int_space (last ?s))"
      by simp
  qed
  have u2: "unsign ?s = ?s"
    by (simp add: unsign_def)
  have p2: "unprefix ?s = b"
  proof -
    have "take 1 b \<noteq> ''_''"
      using nous ne by (cases b) auto
    then show ?thesis
      by (simp add: unprefix_def)
  qed
  show "int16_literal ?s"
    by (simp only: int16_literal_def s2 u2 p2 literal_body dig ok simp_thms)
  show "int16_value ?s = hex_value b"
    by (simp add: int16_value_def s2 u2 p2 filt Let_def del: append.simps)
qed

lemma client_sync_strip:
  "DrandClientSync_randomness_to_int s = py_int16 (strip_0x s)"
  by (simp add: DrandClientSync_randomness_to_int_def strip_0x_def)

lemma valid_hex_verifier:
  assumes "valid_hex s"
  shows "int16_literal s \<and> int16_value s = hex_value (strip_0x s)"
proof (cases "take 2 s = ''0x''")
  case True
  then have s: "s = ''0x'' @ strip_0x s"
    by (metis append_take_drop_id strip_0x_def)
  from assms have "strip_0x s \<noteq> []" and "list_all is_hex (strip_0x s)"
    by (simp_all add: valid_hex_def)
  from hex_body_literal(3,4) [OF this] show ?thesis
    using s by metis
next
  case False
  then have s: "strip_0x s = s"
    by (simp add: strip_0x_def)
  from assms have "strip_0x s \<noteq> []" and "list_all is_hex (strip_0x s)"
    by (simp_all add: valid_hex_def)
  from hex_body_literal(1,2) [OF this] show ?thesis
    using s by simp
qed

lemma valid_hex_client:
  assumes "valid_hex s"
  shows "int16_literal (strip_0x s) \<and> int16_value (strip_0x s) = hex_value (strip_0x s)"
proof -
  from assms have "strip_0x s \<noteq> []" and "list_all is_hex (strip_0x s)"
    by (simp_all add: valid_hex_def)
  from hex_body_literal(1,2) [OF this] show ?thesis
    by simp
qed

text \<open>
  C5 as stated fails: \<open>-ff\<close> is not a string of hex digits, with or without the
  prefix, yet both conversions accept it, and the result is negative.
\<close>

theorem randomness_to_int_strict_counterexample:
  "\<not> valid_hex ''-ff''
   \<and> DrandVerifier_randomness_to_int ''-ff'' = Inr (- 255)
   \<and> DrandClientSync_randomness_to_int ''-ff'' = Inr (- 255)"
  by (simp add: valid_hex_def strip_0x_def is_hex_def digit_value_def
      DrandVerifier_randomness_to_int_def DrandClientSync_randomness_to_int_def
      py_int16_def int16_sign_def int16_prefix_def int_space_def Py_ISSPACE_def)

text \<open>
  C5, amended. Both conversions are functions of the input string alone. Every valid hex
  string, with or without the prefix \<open>0x\<close>, is accepted by both and converted to the
  unsigned value of its digits, which is below \<open>16 ^ n\<close> for \<open>n\<close> digits and is not
  reduced to a fixed width. For input strings whose code points are all below 256 (the
  strings of this model), the conversions succeed exactly on the base-16 integer
  literals of Python (\<open>DrandClientSync\<close> after it has removed one leading \<open>0x\<close>):
  optional white space around, an optional sign, an optional \<open>0x\<close>/\<open>0X\<close>, and hex
  digits in groups separated by single underscores; the result is the signed value of
  the digits, and every other such input raises \<open>ValueError\<close>. Nothing is stated about
  strings with a code point of 256 or more.
\<close>

theorem randomness_to_int_accepts:
  "DrandVerifier_randomness_to_int s
     = (if int16_literal s then Inr (int16_value s) else Inl ValueError)
   \<and> DrandClientSync_randomness_to_int s
     = (if int16_literal (strip_0x s) then Inr (int16_value (strip_0x s)) else Inl ValueError)
   \<and> (valid_hex s \<longrightarrow>
        DrandVerifier_randomness_to_int s = Inr (hex_value (strip_0x s))
      \<and> DrandClientSync_randomness_to_int s = Inr (hex_value (strip_0x s))
      \<and> 0 \<le> hex_value (strip_0x s)
      \<and> hex_value (strip_0x s) < 16 ^ length (strip_0x s))"
proof (intro conjI impI)
  show v: "DrandVerifier_randomness_to_int s
     = (if int16_literal s then Inr (int16_value s) else Inl ValueError)"
    by (simp only: DrandVerifier_randomness_to_int_def py_int16_literal)
  show c: "DrandClientSync_randomness_to_int s
     = (if int16_literal (strip_0x s) then Inr (int16_value (strip_0x s)) else Inl ValueError)"
    by (simp only: client_sync_strip py_int16_literal)
  assume h: "valid_hex s"
  from valid_hex_verifier [OF h] v
  show "DrandVerifier_randomness_to_int s = Inr (hex_value (strip_0x s))"
    by simp
  from valid_hex_client [OF h] c
  show "DrandClientSync_randomness_to_int s = Inr (hex_value (strip_0x s))"
    by simp
  show "0 \<le> hex_value (strip_0x s)" and "hex_value (strip_0x s) < 16 ^ length (strip_0x s)"
    using hex_value_bounds [of "strip_0x s"] by simp_all
qed

theorem randomness_to_int_accepts_witness:
  "valid_hex ''0xff''
   \<and> DrandVerifier_randomness_to_int ''0xff'' = Inr 255
   \<and> DrandClientSync_randomness_to_int ''0xff'' = Inr 255
   \<and> DrandVerifier_randomness_to_int ''zz'' = Inl ValueError"
proof -
  have h: "valid_hex ''0xff''"
    by (simp add: valid_hex_def strip_0x_def is_hex_def digit_value_def)
  have v: "hex_value (strip_0x ''0xff'') = 255"
    by (simp add: strip_0x_def hex_value_def hexval_def digit_value_def)
  have z: "\<not> int16_literal ''zz''"
    by (simp add: int16_literal_def strip_space_def unsign_def unprefix_def is_hex_def
        digit_value_def int_space_def Py_ISSPACE_def)
  from randomness_to_int_accepts [of "''0xff''"] h
  have "DrandVerifier_randomness_to_int ''0xff'' = Inr (hex_value (strip_0x ''0xff''))
      \<and> DrandClientSync_randomness_to_int ''0xff'' = Inr (hex_value (strip_0x ''0xff''))"
    by blast
  then have a: "DrandVerifier_randomness_to_int ''0xff'' = Inr 255
      \<and> DrandClientSync_randomness_to_int ''0xff'' = Inr 255"
    by (simp only: v)
  from randomness_to_int_accepts [of "''zz''"] z
  have b: "DrandVerifier_randomness_to_int ''zz'' = Inl ValueError"
    by simp
  from h a b show ?thesis
    by simp
qed

end
